theory Spec2Isabelle
  imports Main "HOL-Library.AList" "HOL-Library.Log_Nat"
begin

section \<open>The C tutor: curriculum, progress store, completion request, script run\<close>

text \<open>
  The program is one Python script, \<^verbatim>\<open>ai_c_tutor.py\<close>. Its functions
  \<^verbatim>\<open>load_progress\<close>, \<^verbatim>\<open>save_progress\<close>, \<^verbatim>\<open>reset_progress\<close> and
  \<^verbatim>\<open>get_explanation\<close> are embedded one by one; the module-level code below the
  login form (one run of the script for one widget event) is embedded as \<open>script\<close>.
  Exceptions are values of \<open>py_error\<close>; the file system, the transcript file and the
  completion service are explicit arguments.
\<close>

subsection \<open>Values\<close>

type_synonym topic = string

text \<open>
  A Python \<^verbatim>\<open>dict\<close> from topic to flag. Python dicts keep insertion order and a
  store to an existing key keeps the key's place: that is \<open>AList.update\<close>. Lookup is
  \<open>map_of\<close>; two dicts are equal in Python when they are equal as maps.
\<close>

type_synonym progress = "(topic \<times> bool) list"

datatype py_error =
    OSError              \<comment> \<open>\<^verbatim>\<open>open\<close> refused by the operating system\<close>
  | JSONDecodeError      \<comment> \<open>\<^verbatim>\<open>json.load\<close> on text that is not JSON\<close>
  | AttributeError       \<comment> \<open>\<^verbatim>\<open>.get\<close> on a JSON value that is no object; a missing session key\<close>
  | KeyError             \<comment> \<open>\<^verbatim>\<open>d[k]\<close> with \<^verbatim>\<open>k\<close> not in \<^verbatim>\<open>d\<close>\<close>
  | ZeroDivisionError    \<comment> \<open>\<^verbatim>\<open>a / 0\<close>\<close>
  | RequestException     \<comment> \<open>\<^verbatim>\<open>requests.post\<close> got no response\<close>
  | ResponseBodyError    \<comment> \<open>a 200 body without \<^verbatim>\<open>["choices"][0]["message"]["content"]\<close>\<close>

subsection \<open>Curriculum (lines 25 to 86)\<close>

definition CORE_C_TOPICS :: "topic list" where
  "CORE_C_TOPICS =
    [''C Setup: GCC, IDEs (VS Code, Code::Blocks), CLI Compilation'',
     ''Data Types and Variables'',
     ''Operators (Arithmetic, Logical, Bitwise)'',
     ''Control Flow (if, else, switch)'',
     ''Loops (for, while, do-while)'',
     ''Functions and Recursion'',
     ''Arrays and Strings'',
     ''Pointers and Dynamic Memory'',
     ''Structures and Unions'',
     ''File Handling'',
     ''Header Files and Modular C'',
     ''Makefile and Compilation Units'',
     ''Preprocessor Directives'',
     ''Command Line Arguments'',
     ''Debugging with GDB and Valgrind'']"

definition C_DOMAINS :: "(string \<times> topic list) list" where
  "C_DOMAINS =
    [(''None'', []),
     (''Systems Programming'',
       [''Processes and Forking'',
        ''Signals and Pipes'',
        ''Sockets (TCP/UDP Basics)'',
        ''Multithreading with pthreads'',
        ''Daemon Processes and IPC'']),
     (''Embedded Systems'',
       [''Bitwise Operations for Port Manipulation'',
        ''Microcontroller Programming (e.g., Arduino)'',
        ''Interrupt Handling'',
        ''Timer and Delay Logic'',
        ''Serial Communication (UART)'']),
     (''Operating Systems'',
       [''Process Scheduling Concepts'',
        ''Virtual Memory and Paging'',
        ''Writing a Shell'',
        ''Lexers and Parsers (Flex & Bison)'',
        ''Toy Compiler and File System Simulator'']),
     (''Reverse Engineering'',
       [''Buffer Overflow and Stack Smashing'',
        ''Format String Vulnerabilities'',
        ''Binary Exploitation with GDB'',
        ''Shellcode Basics'']),
     (''Game Development'',
       [''Graphics with SDL2'',
        ''Game Loops and Timers'',
        ''Collision Detection'',
        ''2D Game Physics'',
        ''Sound Integration (SDL_Mixer)'']),
     (''DSA in C'',
       [''Linked Lists and Trees'',
        ''Stacks and Queues'',
        ''Graphs (DFS, BFS)'',
        ''Sorting and Searching Algorithms'',
        ''Hashing and Map Implementation''])]"

subsection \<open>The file system\<close>

text \<open>
  What a path holds, as far as \<^verbatim>\<open>load_progress\<close> can tell: a file that cannot be
  opened, text that is not JSON, JSON that is not an object (\<^verbatim>\<open>data.get\<close> raises at
  the first topic, so not for an empty topic list), or a JSON object. The
  object's values are flags: the program writes nothing else (\<^verbatim>\<open>False\<close> from the
  defaults of \<^verbatim>\<open>load_progress\<close>, \<^verbatim>\<open>True\<close> from the Mark Done handler), and objects
  holding other JSON values are outside this model.
\<close>

datatype file_content =
    Unreadable
  | NotJson
  | JsonNonObject
  | JsonObject progress

text \<open>
  \<open>files\<close> maps a path to its content (\<open>None\<close>: \<^verbatim>\<open>os.path.exists\<close> is false);
  \<open>writable\<close> says whether \<^verbatim>\<open>open(path, "w")\<close> succeeds there (it fails for a
  user name with a slash whose directory does not exist, for a name too long, for a
  read-only directory); \<open>transcript\<close> is the text appended to
  \<^verbatim>\<open>learning_log_c.txt\<close>, which is the path of no user file.
\<close>

record world =
  files :: "string \<rightharpoonup> file_content"
  writable :: "string \<Rightarrow> bool"
  transcript :: string

subsection \<open>Load and save (lines 91 to 111)\<close>

definition USER_DIR :: string where
  "USER_DIR = ''user_data_c''"

definition os_path_join :: "string \<Rightarrow> string \<Rightarrow> string" where
  \<comment> \<open>POSIX \<^verbatim>\<open>os.path.join\<close> of two components: an absolute second component wins.\<close>
  "os_path_join a b =
     (if b \<noteq> [] \<and> hd b = CHR ''/'' then b
      else if a = [] \<or> last a = CHR ''/'' then a @ b
      else a @ ''/'' @ b)"

definition get_user_file :: "string \<Rightarrow> string" where
  "get_user_file username = os_path_join USER_DIR (username @ ''_progress.json'')"

text \<open>
  The dict comprehension \<^verbatim>\<open>{topic: f(topic) for topic in topics}\<close>: one store per
  element, in order, starting from the empty dict.
\<close>

fun dict_comprehension :: "(topic \<Rightarrow> bool) \<Rightarrow> topic list \<Rightarrow> progress \<Rightarrow> progress" where
  "dict_comprehension f [] d = d"
| "dict_comprehension f (t # ts) d = dict_comprehension f ts (AList.update t (f t) d)"

definition dict_get :: "progress \<Rightarrow> topic \<Rightarrow> bool \<Rightarrow> bool" where
  \<comment> \<open>\<^verbatim>\<open>data.get(topic, default)\<close>\<close>
  "dict_get data t dflt = (case map_of data t of None \<Rightarrow> dflt | Some v \<Rightarrow> v)"

definition load_progress :: "topic list \<Rightarrow> string \<Rightarrow> world \<Rightarrow> py_error + progress" where
  "load_progress topics username w =
     (let path = get_user_file username in
      case files w path of
        Some Unreadable \<Rightarrow> Inl OSError
      | Some NotJson \<Rightarrow> Inl JSONDecodeError
      | Some JsonNonObject \<Rightarrow> (if topics = [] then Inr [] else Inl AttributeError)
      | Some (JsonObject data) \<Rightarrow>
          Inr (dict_comprehension (\<lambda>topic. dict_get data topic False) topics [])
      | None \<Rightarrow> Inr (dict_comprehension (\<lambda>topic. False) topics []))"

definition save_progress :: "progress \<Rightarrow> string \<Rightarrow> world \<Rightarrow> py_error + world" where
  "save_progress progress username w =
     (let path = get_user_file username in
      if writable w path
      then Inr (w\<lparr>files := (files w)(path \<mapsto> JsonObject progress)\<rparr>)
      else Inl OSError)"

definition reset_progress :: "topic list \<Rightarrow> string \<Rightarrow> world \<Rightarrow> py_error + world" where
  "reset_progress topics username w =
     save_progress (dict_comprehension (\<lambda>topic. False) topics []) username w"

subsection \<open>The progress figure (lines 163 to 165)\<close>

text \<open>
  \<^verbatim>\<open>completed / total\<close> is Python's true division of two ints and \<^verbatim>\<open>* 100\<close> a
  float multiplication: both give the binary64 number nearest to the exact result, ties
  to the even significand. A finite binary64 number is modelled by the rational it
  denotes. \<open>ilog2 x\<close> is the binary exponent of a positive \<open>x\<close>, the quantum of its
  binade is \<open>2 powi (ilog2 x - 52)\<close>, and never below \<open>2 powi (- 1074)\<close>
  (subnormal numbers). Overflow is not modelled: the numbers here are at most 100.
\<close>

definition ilog2 :: "rat \<Rightarrow> int" where
  "ilog2 x = (case quotient_of x of (a, b) \<Rightarrow>
                (let e = bitlen a - bitlen b in if 2 powi e \<le> x then e else e - 1))"

definition round_half_even :: "rat \<Rightarrow> int" where
  "round_half_even x =
     (let f = \<lfloor>x\<rfloor>; d = x - of_int f in
      if d < 1 / 2 then f else if 1 / 2 < d then f + 1 else if even f then f else f + 1)"

definition float_round :: "rat \<Rightarrow> rat" where
  "float_round x =
     (if x = 0 then 0
      else let q = 2 powi (max (ilog2 \<bar>x\<bar> - 52) (- 1074))
           in sgn x * of_int (round_half_even (\<bar>x\<bar> / q)) * q)"

definition float_truediv :: "int \<Rightarrow> int \<Rightarrow> py_error + rat" where
  \<comment> \<open>\<^verbatim>\<open>a / b\<close> on ints\<close>
  "float_truediv a b =
     (if b = 0 then Inl ZeroDivisionError else Inr (float_round (of_int a / of_int b)))"

definition float_mul :: "rat \<Rightarrow> rat \<Rightarrow> rat" where
  "float_mul x y = float_round (x * y)"

definition py_int :: "rat \<Rightarrow> int" where
  \<comment> \<open>\<^verbatim>\<open>int(x)\<close> on a float: truncation towards zero\<close>
  "py_int x = (if 0 \<le> x then \<lfloor>x\<rfloor> else \<lceil>x\<rceil>)"

definition sum_values :: "progress \<Rightarrow> int" where
  \<comment> \<open>\<^verbatim>\<open>sum(progress.values())\<close>: \<^verbatim>\<open>True\<close> counts 1, \<^verbatim>\<open>False\<close> 0\<close>
  "sum_values progress = sum_list (map (\<lambda>(k, v). if v then 1 else 0) progress)"

definition percent :: "progress \<Rightarrow> topic list \<Rightarrow> py_error + int" where
  "percent progress ROADMAP =
     (let completed = sum_values progress;
          total = int (length ROADMAP)
      in case float_truediv completed total of
           Inl e \<Rightarrow> Inl e
         | Inr ratio \<Rightarrow> Inr (py_int (float_mul ratio 100)))"

subsection \<open>The completion request (lines 14 and 116 to 131)\<close>

definition MODEL :: string where
  "MODEL = ''deepseek/deepseek-chat-v3-0324:free''"

text \<open>The JSON body of the request: the model and the role-tagged messages.\<close>

record payload =
  model :: string
  messages :: "(string \<times> string) list"

text \<open>
  What \<^verbatim>\<open>requests.post\<close> gives: no response (it raises), or a response with its
  \<^verbatim>\<open>status_code\<close>, its \<^verbatim>\<open>text\<close> and, when the body is JSON of the expected shape,
  the string at \<^verbatim>\<open>["choices"][0]["message"]["content"]\<close> (\<open>None\<close>: reading it
  raises). A body whose content is JSON but no string, which the code would return as it
  is, is outside this model; it matters only for a 200 response.
\<close>

datatype response =
    NoResponse
  | Response int string "string option"

fun str_nat :: "nat \<Rightarrow> string" where
  "str_nat n =
     (if n < 10 then [''0123456789'' ! n]
      else str_nat (n div 10) @ [''0123456789'' ! (n mod 10)])"

declare str_nat.simps [simp del]

definition str_int :: "int \<Rightarrow> string" where
  \<comment> \<open>\<^verbatim>\<open>str\<close> of an int, as the f-string formats it\<close>
  "str_int i = (if i < 0 then ''-'' @ str_nat (nat (- i)) else str_nat (nat i))"

definition cross_mark :: string where
  \<comment> \<open>U+274C in UTF-8\<close>
  "cross_mark = [CHR 0xE2, CHR 0x9D, CHR 0x8C]"

text \<open>
  \<open>get_explanation\<close> returns the payloads it posted together with its result: the
  text, or the exception that leaves the function.
\<close>

definition get_explanation ::
  "(payload \<Rightarrow> response) \<Rightarrow> topic \<Rightarrow> bool \<Rightarrow> bool \<Rightarrow> payload list \<times> (py_error + string)" where
  "get_explanation service concept quiz example =
     (let instruction =
            (if quiz then ''Create a multiple choice quiz (3-4 options) with correct answer for:''
             else if example then ''Give a real-world example with code and explanation for:''
             else ''Explain the C programming concept clearly with code examples.'');
          messages =
            [(''system'', ''You are a helpful C programming tutor.''),
             (''user'', instruction @ '' '' @ concept)];
          payload = \<lparr>model = MODEL, messages = messages\<rparr>
      in ([payload],
          case service payload of
            NoResponse \<Rightarrow> Inl RequestException
          | Response status_code text content \<Rightarrow>
              if status_code = 200
              then (case content of None \<Rightarrow> Inl ResponseBodyError | Some c \<Rightarrow> Inr c)
              else Inr (cross_mark @ '' Error '' @ str_int status_code @ '': '' @ text)))"

subsection \<open>One run of the script (lines 150 to 233)\<close>

text \<open>
  Streamlit runs the script from the top for every widget event. \<open>session\<close> is
  \<^verbatim>\<open>st.session_state\<close> below the login form: \<open>None\<close> in \<open>selected_concept\<close> and
  \<open>explanation\<close> is a missing key; in \<open>quiz\<close> and \<open>example\<close>, read only through
  \<^verbatim>\<open>.get\<close>, it is a missing key or the value \<^verbatim>\<open>None\<close>.
\<close>

record session =
  selected_concept :: "topic option"
  explanation :: "string option"
  quiz :: "string option"
  example :: "string option"

datatype button =
    NoButton
  | ResetProgress
  | TeachMe
  | Regenerate
  | MarkDone
  | Next
  | ExportLog
  | ShowExample
  | GiveQuiz

text \<open>
  The widget values of one run: the entry picked in each select box and the button
  whose click caused the run (a button is true in that run only).
\<close>

record widgets =
  domain_pick :: string
  concept_pick :: topic
  clicked :: button

definition selectbox :: "string list \<Rightarrow> string \<Rightarrow> string" where
  \<comment> \<open>\<^verbatim>\<open>st.selectbox(label, options, index=0)\<close>: one of the options, the first by default\<close>
  "selectbox options pick = (if pick \<in> set options then pick else hd options)"

text \<open>
  What a run leaves behind: the session state and the world, the payloads posted to the
  completion service, the exception that ended the run if one did, and whether the run
  ended in \<^verbatim>\<open>st.rerun()\<close>.
\<close>

record run =
  session_after :: session
  world_after :: world
  posted :: "payload list"
  raised :: "py_error option"
  rerun :: bool

definition ends :: "session \<Rightarrow> world \<Rightarrow> payload list \<Rightarrow> run" where
  "ends s w ps = \<lparr>session_after = s, world_after = w, posted = ps, raised = None, rerun = False\<rparr>"

definition reruns :: "session \<Rightarrow> world \<Rightarrow> payload list \<Rightarrow> run" where
  "reruns s w ps = \<lparr>session_after = s, world_after = w, posted = ps, raised = None, rerun = True\<rparr>"

definition raises :: "py_error \<Rightarrow> session \<Rightarrow> world \<Rightarrow> payload list \<Rightarrow> run" where
  "raises e s w ps = \<lparr>session_after = s, world_after = w, posted = ps, raised = Some e, rerun = False\<rparr>"

text \<open>Lines 171 to 173: the sidebar list reads \<^verbatim>\<open>progress[topic]\<close> for every topic.\<close>

fun roadmap_status :: "topic list \<Rightarrow> progress \<Rightarrow> py_error + (bool \<times> topic) list" where
  "roadmap_status [] progress = Inr []"
| "roadmap_status (topic # ts) progress =
     (case map_of progress topic of
        None \<Rightarrow> Inl KeyError
      | Some v \<Rightarrow>
          (case roadmap_status ts progress of
             Inl e \<Rightarrow> Inl e
           | Inr r \<Rightarrow> Inr ((v, topic) # r)))"

text \<open>Line 180: \<^verbatim>\<open>[c for c in ROADMAP if not progress[c]]\<close>.\<close>

fun available_concepts :: "topic list \<Rightarrow> progress \<Rightarrow> py_error + topic list" where
  "available_concepts [] progress = Inr []"
| "available_concepts (c # cs) progress =
     (case map_of progress c of
        None \<Rightarrow> Inl KeyError
      | Some v \<Rightarrow>
          (case available_concepts cs progress of
             Inl e \<Rightarrow> Inl e
           | Inr r \<Rightarrow> Inr (if \<not> v then c # r else r)))"

fun list_index :: "'a list \<Rightarrow> 'a \<Rightarrow> nat option" where
  \<comment> \<open>\<^verbatim>\<open>xs.index(x)\<close>; \<open>None\<close> where Python raises ValueError\<close>
  "list_index [] x = None"
| "list_index (y # ys) x = (if y = x then Some 0 else map_option Suc (list_index ys x))"

text \<open>Lines 183 to 187.\<close>

definition teach_me :: "(payload \<Rightarrow> response) \<Rightarrow> topic \<Rightarrow> session \<Rightarrow> world \<Rightarrow> run" where
  "teach_me service selected s w =
     (let s1 = s\<lparr>selected_concept := Some selected\<rparr>;
          (ps, r) = get_explanation service selected False False
      in case r of
           Inl e \<Rightarrow> raises e s1 w ps
         | Inr text \<Rightarrow> ends (s1\<lparr>explanation := Some text, quiz := None, example := None\<rparr>) w ps)"

text \<open>Lines 197 to 199.\<close>

definition regenerate :: "(payload \<Rightarrow> response) \<Rightarrow> topic \<Rightarrow> session \<Rightarrow> world \<Rightarrow> run" where
  "regenerate service concept s w =
     (let (ps, r) = get_explanation service concept False False
      in case r of
           Inl e \<Rightarrow> raises e s w ps
         | Inr text \<Rightarrow> reruns (s\<lparr>explanation := Some text\<rparr>) w ps)"

text \<open>Lines 201 to 205.\<close>

definition mark_done :: "string \<Rightarrow> progress \<Rightarrow> topic \<Rightarrow> session \<Rightarrow> world \<Rightarrow> run" where
  "mark_done username progress concept s w =
     (case save_progress (AList.update concept True progress) username w of
        Inl e \<Rightarrow> raises e s w []
      | Inr w' \<Rightarrow> reruns (s\<lparr>selected_concept := None\<rparr>) w' [])"

text \<open>
  Lines 207 to 212. The conditional expression binds weaker than \<^verbatim>\<open>+\<close>: the index is
  the position after the concept when the concept is in the list, and 0 otherwise.
\<close>

definition next_concept ::
  "(payload \<Rightarrow> response) \<Rightarrow> topic list \<Rightarrow> topic \<Rightarrow> session \<Rightarrow> world \<Rightarrow> run" where
  "next_concept service available concept s w =
     (let idx = (case list_index available concept of Some i \<Rightarrow> i + 1 | None \<Rightarrow> 0)
      in if idx < length available
         then (let s1 = s\<lparr>selected_concept := Some (available ! idx)\<rparr>;
                   (ps, r) = get_explanation service (available ! idx) False False
               in case r of
                    Inl e \<Rightarrow> raises e s1 w ps
                  | Inr text \<Rightarrow> reruns (s1\<lparr>explanation := Some text\<rparr>) w ps)
         else ends s w [])"

text \<open>Lines 214 to 217.\<close>

definition export_log :: "topic \<Rightarrow> string \<Rightarrow> session \<Rightarrow> world \<Rightarrow> run" where
  "export_log concept text s w =
     (if writable w ''learning_log_c.txt''
      then ends s (w\<lparr>transcript := transcript w
                      @ [CHR 0x0A, CHR 0x0A] @ ''---'' @ [CHR 0x0A] @ concept @ [CHR 0x0A]
                      @ text @ [CHR 0x0A]\<rparr>) []
      else raises OSError s w [])"

text \<open>Lines 220 to 221 and 226 to 227.\<close>

definition show_example :: "(payload \<Rightarrow> response) \<Rightarrow> topic \<Rightarrow> session \<Rightarrow> world \<Rightarrow> run" where
  "show_example service concept s w =
     (let (ps, r) = get_explanation service concept False True
      in case r of
           Inl e \<Rightarrow> raises e s w ps
         | Inr text \<Rightarrow> ends (s\<lparr>example := Some text\<rparr>) w ps)"

definition give_quiz :: "(payload \<Rightarrow> response) \<Rightarrow> topic \<Rightarrow> session \<Rightarrow> world \<Rightarrow> run" where
  "give_quiz service concept s w =
     (let (ps, r) = get_explanation service concept True False
      in case r of
           Inl e \<Rightarrow> raises e s w ps
         | Inr text \<Rightarrow> ends (s\<lparr>quiz := Some text\<rparr>) w ps)"

text \<open>
  Lines 189 to 233, entered with the session and the payloads the Teach Me handler
  left. Line 193 reads \<^verbatim>\<open>st.session_state.explanation\<close>, which raises when the key
  is missing.
\<close>

definition concept_section ::
  "(payload \<Rightarrow> response) \<Rightarrow> string \<Rightarrow> button \<Rightarrow> progress \<Rightarrow> topic list \<Rightarrow>
   session \<Rightarrow> world \<Rightarrow> payload list \<Rightarrow> run" where
  "concept_section service username b progress available s w ps =
     (case selected_concept s of
        None \<Rightarrow> ends s w ps
      | Some concept \<Rightarrow>
          (case explanation s of
             None \<Rightarrow> raises AttributeError s w ps
           | Some text \<Rightarrow>
               (case b of
                  Regenerate \<Rightarrow> regenerate service concept s w
                | MarkDone \<Rightarrow> mark_done username progress concept s w
                | Next \<Rightarrow> next_concept service available concept s w
                | ExportLog \<Rightarrow> export_log concept text s w
                | ShowExample \<Rightarrow> show_example service concept s w
                | GiveQuiz \<Rightarrow> give_quiz service concept s w
                | _ \<Rightarrow> ends s w ps)))"

text \<open>Lines 152 to 158: the road map of the picked domain.\<close>

definition roadmap_of :: "string \<Rightarrow> py_error + topic list" where
  "roadmap_of domain =
     (if domain = ''None'' then Inr CORE_C_TOPICS
      else case map_of C_DOMAINS domain of None \<Rightarrow> Inl KeyError | Some ts \<Rightarrow> Inr ts)"

text \<open>
  The run for a logged-in user. The widgets that draw (metric, progress bar, markdown)
  change nothing and are left out, except where they can raise.
\<close>

definition script ::
  "(payload \<Rightarrow> response) \<Rightarrow> string \<Rightarrow> widgets \<Rightarrow> session \<Rightarrow> world \<Rightarrow> run" where
  "script service username ui s w =
     (case roadmap_of (selectbox (map fst C_DOMAINS) (domain_pick ui)) of
        Inl e \<Rightarrow> raises e s w []
      | Inr ROADMAP \<Rightarrow>
     (case load_progress ROADMAP username w of
        Inl e \<Rightarrow> raises e s w []
      | Inr progress \<Rightarrow>
     (case percent progress ROADMAP of
        Inl e \<Rightarrow> raises e s w []
      | Inr pc \<Rightarrow>
     (case roadmap_status ROADMAP progress of
        Inl e \<Rightarrow> raises e s w []
      | Inr lines \<Rightarrow>
     if clicked ui = ResetProgress
     then (case reset_progress ROADMAP username w of
             Inl e \<Rightarrow> raises e s w []
           | Inr w' \<Rightarrow> reruns s w' [])
     else
     (case available_concepts ROADMAP progress of
        Inl e \<Rightarrow> raises e s w []
      | Inr available \<Rightarrow>
          (let r = (if available \<noteq> [] \<and> clicked ui = TeachMe
                    then teach_me service (selectbox available (concept_pick ui)) s w
                    else ends s w [])
           in if raised r \<noteq> None then r
              else concept_section service username (clicked ui) progress available
                     (session_after r) (world_after r) (posted r)))))))"

subsection \<open>Facts about dicts\<close>

lemma map_of_dict_comprehension:
  "map_of (dict_comprehension f ts d) =
     (\<lambda>t. if t \<in> set ts then Some (f t) else map_of d t)"
proof (induction ts arbitrary: d)
  case Nil
  show ?case by simp
next
  case (Cons a ts)
  show ?case
    by (auto simp: Cons.IH update_conv' fun_eq_iff)
qed

lemma keys_dict_comprehension:
  "fst ` set (dict_comprehension f ts d) = set ts \<union> fst ` set d"
  by (induction ts arbitrary: d) (auto simp: dom_update)


lemma load_progress_no_file:
  "files w (get_user_file user) = None \<Longrightarrow>
     load_progress topics user w = Inr (dict_comprehension (\<lambda>topic. False) topics [])"
  by (simp add: load_progress_def)

lemma load_progress_object:
  "files w (get_user_file user) = Some (JsonObject data) \<Longrightarrow>
     load_progress topics user w =
       Inr (dict_comprehension (\<lambda>topic. dict_get data topic False) topics [])"
  by (simp add: load_progress_def)

lemma save_progress_files:
  "save_progress R U w = Inr w' \<Longrightarrow> files w' (get_user_file U) = Some (JsonObject R)"
  by (auto simp: save_progress_def Let_def split: if_splits)

subsection \<open>Facts about the request and the script run\<close>

lemma posted_one:
  "\<exists>p. fst (get_explanation service concept q e) = [p]"
  by (simp add: get_explanation_def Let_def)

lemma get_explanation_non_200:
  assumes "status \<noteq> 200"
    and "fst (get_explanation service topic q e) = [p]"
    and "service p = Response status body content"
  shows "snd (get_explanation service topic q e)
           = Inr (cross_mark @ '' Error '' @ str_int status @ '': '' @ body)"
  using assms by (auto simp: get_explanation_def Let_def)

lemma str_int_500: "str_int 500 = ''500''"
  by code_simp

lemma roadmap_nonempty:
  "roadmap_of (selectbox (map fst C_DOMAINS) pick) = Inr ROADMAP \<Longrightarrow> ROADMAP \<noteq> []"
  by (auto simp: roadmap_of_def selectbox_def C_DOMAINS_def CORE_C_TOPICS_def split: if_splits)

lemma roadmap_total:
  "\<exists>ROADMAP. roadmap_of (selectbox (map fst C_DOMAINS) pick) = Inr ROADMAP"
  by (auto simp: roadmap_of_def selectbox_def C_DOMAINS_def CORE_C_TOPICS_def split: if_splits)

lemma percent_nonempty:
  "ROADMAP \<noteq> [] \<Longrightarrow> \<exists>pc. percent progress ROADMAP = Inr pc"
  by (simp add: percent_def float_truediv_def Let_def)

lemma load_progress_keys:
  "load_progress topics user w = Inr progress \<Longrightarrow> fst ` set progress = set topics"
proof -
  assume "load_progress topics user w = Inr progress"
  then obtain f where "progress = dict_comprehension f topics []"
    by (auto simp: load_progress_def Let_def
        split: option.splits file_content.splits if_splits)
  then show ?thesis
    by (simp add: keys_dict_comprehension)
qed


lemma roadmap_status_total:
  "set ts \<subseteq> fst ` set progress \<Longrightarrow> \<exists>r. roadmap_status ts progress = Inr r"
proof (induction ts)
  case Nil
  show ?case by simp
next
  case (Cons a ts)
  then obtain v where "map_of progress a = Some v"
    by (metis list.set_intros(1) map_of_eq_None_iff not_Some_eq subsetD)
  moreover from Cons obtain r where "roadmap_status ts progress = Inr r" by auto
  ultimately show ?case by simp
qed

lemma available_concepts_filter:
  "set ts \<subseteq> fst ` set progress \<Longrightarrow>
     available_concepts ts progress = Inr (filter (\<lambda>c. map_of progress c = Some False) ts)"
proof (induction ts)
  case Nil
  show ?case by simp
next
  case (Cons a ts)
  then obtain v where "map_of progress a = Some v"
    by (metis list.set_intros(1) map_of_eq_None_iff not_Some_eq subsetD)
  moreover from Cons have "available_concepts ts progress
      = Inr (filter (\<lambda>c. map_of progress c = Some False) ts)" by auto
  ultimately show ?case by simp
qed

lemma script_after_load:
  assumes "roadmap_of (selectbox (map fst C_DOMAINS) (domain_pick ui)) = Inr ROADMAP"
    and "load_progress ROADMAP username w = Inr progress"
    and "clicked ui \<noteq> ResetProgress"
  shows "script service username ui s w =
           (let available = filter (\<lambda>c. map_of progress c = Some False) ROADMAP;
                r = (if available \<noteq> [] \<and> clicked ui = TeachMe
                     then teach_me service (selectbox available (concept_pick ui)) s w
                     else ends s w [])
            in if raised r \<noteq> None then r
               else concept_section service username (clicked ui) progress available
                      (session_after r) (world_after r) (posted r))"
proof -
  have keys: "set ROADMAP \<subseteq> fst ` set progress"
    using load_progress_keys [OF assms(2)] by simp
  obtain pc where pc: "percent progress ROADMAP = Inr pc"
    using percent_nonempty [OF roadmap_nonempty [OF assms(1)]] by blast
  obtain ls where ls: "roadmap_status ROADMAP progress = Inr ls"
    using roadmap_status_total [OF keys] by blast
  show ?thesis
    using assms pc ls available_concepts_filter [OF keys]
    by (simp add: script_def Let_def)
qed

lemma list_index_None: "list_index xs x = None \<longleftrightarrow> x \<notin> set xs"
  by (induction xs) auto

lemma list_index_first: "x \<notin> set pre \<Longrightarrow> list_index (pre @ x # rest) x = Some (length pre)"
  by (induction pre) auto

lemma next_concept_moves:
  assumes "idx < length available"
    and "(case list_index available concept of Some i \<Rightarrow> i + 1 | None \<Rightarrow> 0) = idx"
  shows "selected_concept (session_after (next_concept service available concept s w))
           = Some (available ! idx)
       \<and> posted (next_concept service available concept s w)
           = fst (get_explanation service (available ! idx) False False)
       \<and> world_after (next_concept service available concept s w) = w"
proof (cases "get_explanation service (available ! idx) False False")
  case (Pair ps r)
  then show ?thesis
    using assms
    by (cases r) (simp_all add: next_concept_def Let_def raises_def reruns_def)
qed

lemma next_concept_stays:
  assumes "\<not> idx < length available"
    and "(case list_index available concept of Some i \<Rightarrow> i + 1 | None \<Rightarrow> 0) = idx"
  shows "next_concept service available concept s w = ends s w []"
  using assms by (simp add: next_concept_def Let_def)

lemma script_content_ready:
  assumes "roadmap_of (selectbox (map fst C_DOMAINS) (domain_pick ui)) = Inr ROADMAP"
    and "load_progress ROADMAP username w = Inr progress"
    and "clicked ui \<noteq> ResetProgress" and "clicked ui \<noteq> TeachMe"
    and "selected_concept s = Some t" and "explanation s = Some ex"
  shows "script service username ui s w =
           (case clicked ui of
              Regenerate \<Rightarrow> regenerate service t s w
            | MarkDone \<Rightarrow> mark_done username progress t s w
            | Next \<Rightarrow> next_concept service
                        (filter (\<lambda>c. map_of progress c = Some False) ROADMAP) t s w
            | ExportLog \<Rightarrow> export_log t ex s w
            | ShowExample \<Rightarrow> show_example service t s w
            | GiveQuiz \<Rightarrow> give_quiz service t s w
            | _ \<Rightarrow> ends s w [])"
  using assms(3-6)
  by (simp add: script_after_load [OF assms(1,2,3)] concept_section_def ends_def
      split: button.splits)

lemma regenerate_run:
  "posted (regenerate service t s w) = fst (get_explanation service t False False)
   \<and> selected_concept (session_after (regenerate service t s w)) = selected_concept s
   \<and> quiz (session_after (regenerate service t s w)) = quiz s
   \<and> example (session_after (regenerate service t s w)) = example s
   \<and> world_after (regenerate service t s w) = w"
proof (cases "get_explanation service t False False")
  case (Pair ps r)
  then show ?thesis
    by (cases r) (simp_all add: regenerate_def raises_def reruns_def)
qed

lemma regenerate_text:
  "snd (get_explanation service t False False) = Inr text \<Longrightarrow>
     regenerate service t s w
       = reruns (s\<lparr>explanation := Some text\<rparr>) w (fst (get_explanation service t False False))"
  by (cases "get_explanation service t False False") (simp add: regenerate_def)

lemma roadmap_reverse_engineering:
  "roadmap_of (selectbox (map fst C_DOMAINS) ''Reverse Engineering'')
     = Inr [''Buffer Overflow and Stack Smashing'', ''Format String Vulnerabilities'',
            ''Binary Exploitation with GDB'', ''Shellcode Basics'']"
  by (simp add: roadmap_of_def selectbox_def C_DOMAINS_def)

lemma load_fresh_reverse_engineering:
  "load_progress [''Buffer Overflow and Stack Smashing'', ''Format String Vulnerabilities'',
                  ''Binary Exploitation with GDB'', ''Shellcode Basics''] ''alice''
       \<lparr>files = Map.empty, writable = (\<lambda>p. True), transcript = []\<rparr>
     = Inr [(''Buffer Overflow and Stack Smashing'', False),
            (''Format String Vulnerabilities'', False),
            (''Binary Exploitation with GDB'', False),
            (''Shellcode Basics'', False)]"
  by (simp add: load_progress_def)

lemma load_stored_reverse_engineering:
  "load_progress [''Buffer Overflow and Stack Smashing'', ''Format String Vulnerabilities'',
                  ''Binary Exploitation with GDB'', ''Shellcode Basics''] ''alice''
       \<lparr>files = [''user_data_c/alice_progress.json'' \<mapsto>
                   JsonObject [(''Shellcode Basics'', True)]],
        writable = (\<lambda>p. True), transcript = []\<rparr>
     = Inr [(''Buffer Overflow and Stack Smashing'', False),
            (''Format String Vulnerabilities'', False),
            (''Binary Exploitation with GDB'', False),
            (''Shellcode Basics'', True)]"
  by (simp add: load_progress_def get_user_file_def os_path_join_def USER_DIR_def dict_get_def)

lemma mark_done_run:
  "writable w (get_user_file username) \<Longrightarrow>
     mark_done username progress t s w
       = reruns (s\<lparr>selected_concept := None\<rparr>)
           (w\<lparr>files := (files w)(get_user_file username \<mapsto>
                 JsonObject (AList.update t True progress))\<rparr>) []"
  by (simp add: mark_done_def save_progress_def)

lemma teach_me_run:
  "posted (teach_me service c s w) = fst (get_explanation service c False False)
   \<and> selected_concept (session_after (teach_me service c s w)) = Some c
   \<and> world_after (teach_me service c s w) = w
   \<and> (raised (teach_me service c s w) = None \<longrightarrow>
        explanation (session_after (teach_me service c s w)) \<noteq> None)"
proof (cases "get_explanation service c False False")
  case (Pair ps r)
  then show ?thesis
    by (cases r) (simp_all add: teach_me_def raises_def ends_def)
qed

lemma teach_me_ends:
  "raised (teach_me service c s w) = None \<Longrightarrow>
     ends (session_after (teach_me service c s w)) (world_after (teach_me service c s w))
       (posted (teach_me service c s w)) = teach_me service c s w"
proof (cases "get_explanation service c False False")
  case (Pair ps r)
  then show "raised (teach_me service c s w) = None \<Longrightarrow> ?thesis"
    by (cases r) (simp_all add: teach_me_def raises_def ends_def)
qed

lemma selectbox_member: "options \<noteq> [] \<Longrightarrow> selectbox options pick \<in> set options"
  by (simp add: selectbox_def)

lemma concept_section_other:
  "selected_concept s = Some c \<Longrightarrow> explanation s \<noteq> None \<Longrightarrow>
     concept_section service username TeachMe progress available s w ps = ends s w ps"
  by (auto simp: concept_section_def)

lemma concept_section_posts_nothing:
  "b = TeachMe \<or> b = NoButton \<Longrightarrow>
     posted (concept_section service username b progress available s w []) = []"
  by (auto simp: concept_section_def ends_def raises_def split: option.splits)

lemma script_teach_me:
  assumes "roadmap_of (selectbox (map fst C_DOMAINS) (domain_pick ui)) = Inr ROADMAP"
    and "load_progress ROADMAP username w = Inr progress"
    and "clicked ui = TeachMe"
  shows "posted (script service username ui s w) = []
       \<or> (\<exists>c\<in>set ROADMAP. map_of progress c = Some False
            \<and> selected_concept (session_after (script service username ui s w)) = Some c
            \<and> posted (script service username ui s w)
                = fst (get_explanation service c False False))"
proof (cases "filter (\<lambda>c. map_of progress c = Some False) ROADMAP = []")
  case True
  then show ?thesis
    using assms(3)
    by (simp add: script_after_load [OF assms(1,2)] ends_def concept_section_posts_nothing)
next
  case False
  let ?av = "filter (\<lambda>c. map_of progress c = Some False) ROADMAP"
  let ?c = "selectbox ?av (concept_pick ui)"
  let ?r = "teach_me service ?c s w"
  have "?c \<in> set ?av" using False by (rule selectbox_member)
  then have c: "?c \<in> set ROADMAP" "map_of progress ?c = Some False" by simp_all
  have run: "script service username ui s w = ?r"
  proof (cases "raised ?r = None")
    case True
    then have "concept_section service username TeachMe progress ?av
                 (session_after ?r) (world_after ?r) (posted ?r)
               = ends (session_after ?r) (world_after ?r) (posted ?r)"
      using teach_me_run [of service ?c s w] by (intro concept_section_other) auto
    also have "\<dots> = ?r"
      using True by (rule teach_me_ends)
    finally show ?thesis
      using True False assms(3) by (simp add: script_after_load [OF assms(1,2)])
  next
    case False
    then show ?thesis
      using \<open>?av \<noteq> []\<close> assms(3) by (simp add: script_after_load [OF assms(1,2)])
  qed
  show ?thesis
    unfolding run using c teach_me_run [of service ?c s w] by blast
qed

lemma script_next:
  assumes "roadmap_of (selectbox (map fst C_DOMAINS) (domain_pick ui)) = Inr ROADMAP"
    and "load_progress ROADMAP username w = Inr progress"
    and "clicked ui = Next"
  shows "posted (script service username ui s w) = []
       \<or> (\<exists>c\<in>set ROADMAP. map_of progress c = Some False
            \<and> selected_concept (session_after (script service username ui s w)) = Some c
            \<and> posted (script service username ui s w)
                = fst (get_explanation service c False False))"
proof -
  let ?av = "filter (\<lambda>c. map_of progress c = Some False) ROADMAP"
  have run: "script service username ui s w
               = concept_section service username Next progress ?av s w []"
    using assms(3) by (simp add: script_after_load [OF assms(1,2)] ends_def)
  show ?thesis
  proof (cases "selected_concept s")
    case None
    then show ?thesis unfolding run by (simp add: concept_section_def ends_def)
  next
    case (Some t)
    show ?thesis
    proof (cases "explanation s")
      case None
      then show ?thesis
        unfolding run using Some by (simp add: concept_section_def raises_def)
    next
      case (Some ex)
      let ?idx = "case list_index ?av t of Some i \<Rightarrow> i + 1 | None \<Rightarrow> 0"
      have sec: "concept_section service username Next progress ?av s w []
                   = next_concept service ?av t s w"
        using Some \<open>selected_concept s = Some t\<close> by (simp add: concept_section_def)
      show ?thesis
      proof (cases "?idx < length ?av")
        case True
        then have "?av ! ?idx \<in> set ?av" by (rule nth_mem)
        then have "?av ! ?idx \<in> set ROADMAP" "map_of progress (?av ! ?idx) = Some False"
          by simp_all
        then show ?thesis
          unfolding run sec using next_concept_moves [OF True refl, of service s w] by blast
      next
        case False
        then show ?thesis
          unfolding run sec using next_concept_stays [OF False refl, of service s w]
          by (simp add: ends_def)
      qed
    qed
  qed
qed

lemma show_example_posted:
  "posted (show_example service t s w) = fst (get_explanation service t False True)"
proof (cases "get_explanation service t False True")
  case (Pair ps r)
  then show ?thesis
    by (cases r) (simp_all add: show_example_def raises_def ends_def)
qed

lemma give_quiz_posted:
  "posted (give_quiz service t s w) = fst (get_explanation service t True False)"
proof (cases "get_explanation service t True False")
  case (Pair ps r)
  then show ?thesis
    by (cases r) (simp_all add: give_quiz_def raises_def ends_def)
qed

subsection \<open>Facts about the binary64 model and the progress figure\<close>


































section \<open>The progress store\<close>

text \<open>
  C1. For every topic list and user name, \<open>load_progress\<close> returns a record whose keys
  are exactly the topics. When no file exists for the user it does not fail and maps
  every topic to \<open>False\<close>. When the file holds a stored record, each topic maps to its
  stored value if it has one and to \<open>False\<close> if not, and stored keys that are no
  topics are left out.
\<close>

theorem load_progress_record:
  "(files w (get_user_file user) = None \<longrightarrow>
      (\<exists>d. load_progress topics user w = Inr d \<and> fst ` set d = set topics \<and>
           map_of d = (\<lambda>t. if t \<in> set topics then Some False else None)))
   \<and> (files w (get_user_file user) = Some (JsonObject data) \<longrightarrow>
      (\<exists>d. load_progress topics user w = Inr d \<and> fst ` set d = set topics \<and>
           map_of d = (\<lambda>t. if t \<in> set topics
                            then Some (case map_of data t of Some v \<Rightarrow> v | None \<Rightarrow> False)
                            else None)))"
  by (auto simp: load_progress_no_file load_progress_object keys_dict_comprehension
        map_of_dict_comprehension dict_get_def fun_eq_iff)

theorem load_progress_record_witness:
  "files \<lparr>files = Map.empty, writable = (\<lambda>p. True), transcript = []\<rparr> (get_user_file ''alice'') = None
   \<and> load_progress [''A'', ''B''] ''alice''
        \<lparr>files = Map.empty, writable = (\<lambda>p. True), transcript = []\<rparr> = Inr [(''A'', False), (''B'', False)]
   \<and> files \<lparr>files = [''user_data_c/alice_progress.json'' \<mapsto> JsonObject [(''Z'', True), (''B'', True)]],
             writable = (\<lambda>p. True), transcript = []\<rparr> (get_user_file ''alice'')
       = Some (JsonObject [(''Z'', True), (''B'', True)])
   \<and> (\<exists>d. load_progress [''A'', ''B''] ''alice''
        \<lparr>files = [''user_data_c/alice_progress.json'' \<mapsto> JsonObject [(''Z'', True), (''B'', True)]],
             writable = (\<lambda>p. True), transcript = []\<rparr> = Inr d \<and> map_of d ''A'' = Some False
          \<and> map_of d ''B'' = Some True \<and> map_of d ''Z'' = None)"
  using load_progress_record [where w = "\<lparr>files = Map.empty, writable = (\<lambda>p. True), transcript = []\<rparr>"
      and user = "''alice''" and topics = "[''A'', ''B'']"]
    load_progress_record [where w = "\<lparr>files = [''user_data_c/alice_progress.json'' \<mapsto> JsonObject [(''Z'', True), (''B'', True)]],
             writable = (\<lambda>p. True), transcript = []\<rparr>" and user = "''alice''"
      and data = "[(''Z'', True), (''B'', True)]" and topics = "[''A'', ''B'']"]
  by (simp add: get_user_file_def os_path_join_def USER_DIR_def load_progress_def dict_get_def)

text \<open>
  C3. For every record \<open>R\<close> whose keys include all of \<open>topics\<close> and every user name
  \<open>U\<close>: after a \<open>save_progress\<close> of \<open>R\<close> for \<open>U\<close> that was carried out,
  \<open>load_progress topics U\<close> returns a record equal to \<open>R\<close> restricted to
  \<open>topics\<close>.
\<close>

theorem save_then_load:
  "set topics \<subseteq> fst ` set R \<Longrightarrow> save_progress R U w = Inr w' \<Longrightarrow>
     \<exists>d. load_progress topics U w' = Inr d \<and> map_of d = map_of R |` set topics"
proof -
  assume dom: "set topics \<subseteq> fst ` set R" and saved: "save_progress R U w = Inr w'"
  let ?d = "dict_comprehension (\<lambda>topic. dict_get R topic False) topics []"
  have loaded: "load_progress topics U w' = Inr ?d"
    using save_progress_files [OF saved] by (rule load_progress_object)
  have "map_of ?d t = (map_of R |` set topics) t" for t
  proof (cases "t \<in> set topics")
    case True
    then have "t \<in> fst ` set R" using dom by blast
    then obtain v where "map_of R t = Some v"
      by (metis map_of_eq_None_iff not_Some_eq)
    then show ?thesis
      using True by (simp add: map_of_dict_comprehension dict_get_def)
  next
    case False
    then show ?thesis
      by (simp add: map_of_dict_comprehension)
  qed
  then have "map_of ?d = map_of R |` set topics" by (rule ext)
  with loaded show ?thesis by blast
qed

theorem save_then_load_witness:
  "set [''A''] \<subseteq> fst ` set [(''A'', True), (''B'', False)]
   \<and> save_progress [(''A'', True), (''B'', False)] ''alice''
        \<lparr>files = Map.empty, writable = (\<lambda>p. True), transcript = []\<rparr>
       = Inr \<lparr>files = [''user_data_c/alice_progress.json'' \<mapsto> JsonObject [(''A'', True), (''B'', False)]],
              writable = (\<lambda>p. True), transcript = []\<rparr>
   \<and> (\<exists>d. load_progress [''A''] ''alice''
          \<lparr>files = [''user_data_c/alice_progress.json'' \<mapsto> JsonObject [(''A'', True), (''B'', False)]],
              writable = (\<lambda>p. True), transcript = []\<rparr> = Inr d
        \<and> map_of d = map_of [(''A'', True), (''B'', False)] |` set [''A''])"
proof -
  have sub: "set [''A''] \<subseteq> fst ` set [(''A'', True), (''B'', False)]" by simp
  have saved: "save_progress [(''A'', True), (''B'', False)] ''alice''
        \<lparr>files = Map.empty, writable = (\<lambda>p. True), transcript = []\<rparr>
       = Inr \<lparr>files = [''user_data_c/alice_progress.json'' \<mapsto> JsonObject [(''A'', True), (''B'', False)]],
              writable = (\<lambda>p. True), transcript = []\<rparr>"
    by (simp add: save_progress_def get_user_file_def os_path_join_def USER_DIR_def)
  show ?thesis
    using sub saved save_then_load [OF sub saved] by blast
qed

text \<open>
  C4. \<open>reset_progress topics user\<close> is \<open>save_progress\<close> of the record that maps
  every topic to \<open>False\<close> and has no other key, and \<open>load_progress topics user\<close>
  after a reset that was carried out returns the record mapping every topic to \<open>False\<close>.
\<close>

theorem reset_then_load:
  "\<exists>r. map_of r = (\<lambda>t. if t \<in> set topics then Some False else None)
       \<and> reset_progress topics user w = save_progress r user w
       \<and> (\<forall>w'. reset_progress topics user w = Inr w' \<longrightarrow>
            (\<exists>d. load_progress topics user w' = Inr d
               \<and> map_of d = (\<lambda>t. if t \<in> set topics then Some False else None)))"
proof -
  let ?r = "dict_comprehension (\<lambda>topic. False) topics []"
  have r: "map_of ?r = (\<lambda>t. if t \<in> set topics then Some False else None)"
    by (auto simp: map_of_dict_comprehension fun_eq_iff)
  have "\<exists>d. load_progress topics user w' = Inr d
           \<and> map_of d = (\<lambda>t. if t \<in> set topics then Some False else None)"
    if "reset_progress topics user w = Inr w'" for w'
  proof -
    from that have "files w' (get_user_file user) = Some (JsonObject ?r)"
      unfolding reset_progress_def by (rule save_progress_files)
    then have "load_progress topics user w'
        = Inr (dict_comprehension (\<lambda>topic. dict_get ?r topic False) topics [])"
      by (rule load_progress_object)
    moreover have "map_of (dict_comprehension (\<lambda>topic. dict_get ?r topic False) topics [])
        = (\<lambda>t. if t \<in> set topics then Some False else None)"
      by (auto simp: map_of_dict_comprehension dict_get_def fun_eq_iff)
    ultimately show ?thesis by blast
  qed
  with r show ?thesis
    unfolding reset_progress_def by blast
qed

theorem reset_then_load_witness:
  "reset_progress [''A'', ''B''] ''alice''
      \<lparr>files = [''user_data_c/alice_progress.json'' \<mapsto> JsonObject [(''A'', True)]],
       writable = (\<lambda>p. True), transcript = []\<rparr>
     = Inr \<lparr>files = [''user_data_c/alice_progress.json'' \<mapsto> JsonObject [(''A'', False), (''B'', False)]],
            writable = (\<lambda>p. True), transcript = []\<rparr>
   \<and> (\<exists>d. load_progress [''A'', ''B''] ''alice''
          \<lparr>files = [''user_data_c/alice_progress.json'' \<mapsto> JsonObject [(''A'', False), (''B'', False)]],
           writable = (\<lambda>p. True), transcript = []\<rparr> = Inr d
        \<and> map_of d = (\<lambda>t. if t \<in> set [''A'', ''B''] then Some False else None))"
proof -
  have reset: "reset_progress [''A'', ''B''] ''alice''
      \<lparr>files = [''user_data_c/alice_progress.json'' \<mapsto> JsonObject [(''A'', True)]],
       writable = (\<lambda>p. True), transcript = []\<rparr>
     = Inr \<lparr>files = [''user_data_c/alice_progress.json'' \<mapsto> JsonObject [(''A'', False), (''B'', False)]],
            writable = (\<lambda>p. True), transcript = []\<rparr>"
    by (simp add: reset_progress_def save_progress_def get_user_file_def os_path_join_def
          USER_DIR_def)
  show ?thesis
    using reset reset_then_load [of "[''A'', ''B'']" "''alice''"
        "\<lparr>files = [''user_data_c/alice_progress.json'' \<mapsto> JsonObject [(''A'', True)]],
          writable = (\<lambda>p. True), transcript = []\<rparr>"]
    by auto
qed

section \<open>The progress figure\<close>



section \<open>The completion request\<close>

text \<open>
  C6. For every topic and mode, when the completion service answers the request with a
  status other than 200, \<open>get_explanation\<close> returns the text made of the cross mark,
  \<open>Error\<close>, the status code, a colon and the response body, and raises nothing. The
  handlers store that text in the session: Teach Me and Regenerate as the explanation,
  the quiz and example buttons in their own fields. A 500 response with body
  \<open>rate limited\<close> gives the text ending in \<open>Error 500: rate limited\<close>.
\<close>

theorem non_200_error_text:
  assumes "status \<noteq> 200"
    and "fst (get_explanation service topic q e) = [p]"
    and "service p = Response status body content"
  shows "snd (get_explanation service topic q e)
           = Inr (cross_mark @ '' Error '' @ str_int status @ '': '' @ body)
     \<and> (status = 500 \<and> body = ''rate limited'' \<longrightarrow>
          snd (get_explanation service topic q e)
            = Inr ([CHR 0xE2, CHR 0x9D, CHR 0x8C] @ '' Error 500: rate limited''))
     \<and> (\<not> q \<and> \<not> e \<longrightarrow>
          teach_me service topic s w
            = ends (s\<lparr>selected_concept := Some topic,
                       explanation := Some (cross_mark @ '' Error '' @ str_int status @ '': '' @ body),
                       quiz := None, example := None\<rparr>) w [p]
          \<and> regenerate service topic s w
            = reruns (s\<lparr>explanation := Some (cross_mark @ '' Error '' @ str_int status @ '': '' @ body)\<rparr>) w [p])
     \<and> (q \<and> \<not> e \<longrightarrow>
          give_quiz service topic s w
            = ends (s\<lparr>quiz := Some (cross_mark @ '' Error '' @ str_int status @ '': '' @ body)\<rparr>) w [p])
     \<and> (\<not> q \<and> e \<longrightarrow>
          show_example service topic s w
            = ends (s\<lparr>example := Some (cross_mark @ '' Error '' @ str_int status @ '': '' @ body)\<rparr>) w [p])"
proof -
  let ?t = "cross_mark @ '' Error '' @ str_int status @ '': '' @ body"
  have r: "snd (get_explanation service topic q e) = Inr ?t"
    using assms by (rule get_explanation_non_200)
  have pair: "get_explanation service topic q e = ([p], Inr ?t)"
    using r assms(2) by (simp add: prod_eq_iff)
  have "status = 500 \<and> body = ''rate limited'' \<longrightarrow>
          snd (get_explanation service topic q e)
            = Inr ([CHR 0xE2, CHR 0x9D, CHR 0x8C] @ '' Error 500: rate limited'')"
    using r by (simp add: cross_mark_def str_int_500)
  moreover have "\<not> q \<and> \<not> e \<longrightarrow>
          teach_me service topic s w
            = ends (s\<lparr>selected_concept := Some topic, explanation := Some ?t,
                       quiz := None, example := None\<rparr>) w [p]
          \<and> regenerate service topic s w = reruns (s\<lparr>explanation := Some ?t\<rparr>) w [p]"
    using pair by (cases q; cases e; simp add: teach_me_def regenerate_def)
  moreover have "q \<and> \<not> e \<longrightarrow>
          give_quiz service topic s w = ends (s\<lparr>quiz := Some ?t\<rparr>) w [p]"
    using pair by (cases q; cases e; simp add: give_quiz_def)
  moreover have "\<not> q \<and> e \<longrightarrow>
          show_example service topic s w = ends (s\<lparr>example := Some ?t\<rparr>) w [p]"
    using pair by (cases q; cases e; simp add: show_example_def)
  ultimately show ?thesis using r by blast
qed

theorem non_200_error_text_witness:
  "(500::int) \<noteq> 200
   \<and> fst (get_explanation (\<lambda>p. Response 500 ''rate limited'' None) ''X'' False False)
       = [\<lparr>model = ''deepseek/deepseek-chat-v3-0324:free'',
           messages = [(''system'', ''You are a helpful C programming tutor.''),
                       (''user'', ''Explain the C programming concept clearly with code examples. X'')]\<rparr>]
   \<and> snd (get_explanation (\<lambda>p. Response 500 ''rate limited'' None) ''X'' False False)
       = Inr ([CHR 0xE2, CHR 0x9D, CHR 0x8C] @ '' Error 500: rate limited'')
   \<and> explanation (session_after (teach_me (\<lambda>p. Response 500 ''rate limited'' None) ''X''
         \<lparr>selected_concept = None, explanation = None, quiz = None, example = None\<rparr>
         \<lparr>files = Map.empty, writable = (\<lambda>p. True), transcript = []\<rparr>))
       = Some ([CHR 0xE2, CHR 0x9D, CHR 0x8C] @ '' Error 500: rate limited'')"
proof -
  have ne: "(500::int) \<noteq> 200" by simp
  have p: "fst (get_explanation (\<lambda>p. Response 500 ''rate limited'' None) ''X'' False False)
       = [\<lparr>model = ''deepseek/deepseek-chat-v3-0324:free'',
           messages = [(''system'', ''You are a helpful C programming tutor.''),
                       (''user'', ''Explain the C programming concept clearly with code examples. X'')]\<rparr>]"
    by (simp add: get_explanation_def MODEL_def)
  have r: "(\<lambda>p. Response 500 ''rate limited'' None)
        \<lparr>model = ''deepseek/deepseek-chat-v3-0324:free'',
           messages = [(''system'', ''You are a helpful C programming tutor.''),
                       (''user'', ''Explain the C programming concept clearly with code examples. X'')]\<rparr>
      = Response 500 ''rate limited'' None"
    by simp
  show ?thesis
    using ne p non_200_error_text [OF ne p r,
        of "\<lparr>selected_concept = None, explanation = None, quiz = None, example = None\<rparr>"
           "\<lparr>files = Map.empty, writable = (\<lambda>p. True), transcript = []\<rparr>"]
    by (simp add: ends_def cross_mark_def str_int_500)
qed

text \<open>
  C10. In \<open>get_explanation\<close> the mode flags choose the instruction that is put before
  the topic in the user message and nothing else: one payload is posted whatever the
  flags are, flags whose payloads get the same response give the same result, and with
  both flags set the quiz instruction is used, the example flag being ignored.
\<close>

theorem mode_flags_choose_instruction:
  "(\<exists>instruction.
      fst (get_explanation service concept q e)
        = [\<lparr>model = MODEL,
            messages = [(''system'', ''You are a helpful C programming tutor.''),
                        (''user'', instruction @ '' '' @ concept)]\<rparr>]
      \<and> instruction
        = (if q then ''Create a multiple choice quiz (3-4 options) with correct answer for:''
           else if e then ''Give a real-world example with code and explanation for:''
           else ''Explain the C programming concept clearly with code examples.''))
   \<and> (\<forall>q' e' p p'.
        fst (get_explanation service concept q e) = [p]
        \<and> fst (get_explanation service concept q' e') = [p']
        \<and> service p = service p'
        \<longrightarrow> snd (get_explanation service concept q e)
              = snd (get_explanation service concept q' e'))
   \<and> get_explanation service concept True True = get_explanation service concept True False"
  by (auto simp: get_explanation_def Let_def)

theorem mode_flags_choose_instruction_witness:
  "fst (get_explanation (\<lambda>p. Response 200 ''{}'' (Some ''text'')) ''X'' True True)
      = [\<lparr>model = MODEL,
          messages = [(''system'', ''You are a helpful C programming tutor.''),
                      (''user'', ''Create a multiple choice quiz (3-4 options) with correct answer for: X'')]\<rparr>]
   \<and> fst (get_explanation (\<lambda>p. Response 200 ''{}'' (Some ''text'')) ''X'' False True)
      = [\<lparr>model = MODEL,
          messages = [(''system'', ''You are a helpful C programming tutor.''),
                      (''user'', ''Give a real-world example with code and explanation for: X'')]\<rparr>]
   \<and> snd (get_explanation (\<lambda>p. Response 200 ''{}'' (Some ''text'')) ''X'' True True)
      = snd (get_explanation (\<lambda>p. Response 200 ''{}'' (Some ''text'')) ''X'' False True)"
proof -
  have a: "fst (get_explanation (\<lambda>p. Response 200 ''{}'' (Some ''text'')) ''X'' True True)
      = [\<lparr>model = MODEL,
          messages = [(''system'', ''You are a helpful C programming tutor.''),
                      (''user'', ''Create a multiple choice quiz (3-4 options) with correct answer for: X'')]\<rparr>]"
    by (simp add: get_explanation_def)
  have b: "fst (get_explanation (\<lambda>p. Response 200 ''{}'' (Some ''text'')) ''X'' False True)
      = [\<lparr>model = MODEL,
          messages = [(''system'', ''You are a helpful C programming tutor.''),
                      (''user'', ''Give a real-world example with code and explanation for: X'')]\<rparr>]"
    by (simp add: get_explanation_def)
  from mode_flags_choose_instruction
    [of "\<lambda>p. Response 200 ''{}'' (Some ''text'')" "''X''" True True]
  have "snd (get_explanation (\<lambda>p. Response 200 ''{}'' (Some ''text'')) ''X'' True True)
      = snd (get_explanation (\<lambda>p. Response 200 ''{}'' (Some ''text'')) ''X'' False True)"
    using a b by blast
  with a b show ?thesis by blast
qed

section \<open>The script run\<close>

text \<open>
  C5, as the code has it. In a run with the Next button, a selected topic \<open>t\<close> and an
  explanation in the session: when \<open>t\<close> is not yet completed and a not yet completed
  topic follows it in the road map, the first such topic is selected and its
  explanation is requested; when \<open>t\<close> is the last topic not yet completed, the run
  changes nothing, posts nothing and raises nothing, and \<open>t\<close> stays selected; when
  \<open>t\<close> is not among the topics not yet completed, the first of these is selected and
  its explanation is requested, and when there is none the run changes nothing.
\<close>

theorem next_follows_remaining_list:
  assumes "roadmap_of (selectbox (map fst C_DOMAINS) (domain_pick ui)) = Inr ROADMAP"
    and "load_progress ROADMAP username w = Inr progress"
    and "clicked ui = Next"
    and "selected_concept s = Some t" and "explanation s = Some ex"
  shows "(\<forall>pre mid nxt post.
            ROADMAP = pre @ t # mid @ nxt # post \<and> t \<notin> set pre
            \<and> map_of progress t = Some False
            \<and> (\<forall>c\<in>set mid. map_of progress c = Some True)
            \<and> map_of progress nxt = Some False
          \<longrightarrow> selected_concept (session_after (script service username ui s w)) = Some nxt
              \<and> posted (script service username ui s w)
                  = fst (get_explanation service nxt False False))
       \<and> (\<forall>pre post.
            ROADMAP = pre @ t # post \<and> t \<notin> set pre
            \<and> map_of progress t = Some False
            \<and> (\<forall>c\<in>set post. map_of progress c = Some True)
          \<longrightarrow> script service username ui s w = ends s w [])
       \<and> (\<forall>first rest.
            filter (\<lambda>c. map_of progress c = Some False) ROADMAP = first # rest
            \<and> t \<notin> set (filter (\<lambda>c. map_of progress c = Some False) ROADMAP)
          \<longrightarrow> selected_concept (session_after (script service username ui s w)) = Some first
              \<and> posted (script service username ui s w)
                  = fst (get_explanation service first False False))
       \<and> (filter (\<lambda>c. map_of progress c = Some False) ROADMAP = []
          \<longrightarrow> script service username ui s w = ends s w [])"
proof -
  let ?P = "\<lambda>c. map_of progress c = Some False"
  let ?remaining = "filter ?P ROADMAP"
  let ?idx = "case list_index ?remaining t of Some i \<Rightarrow> i + 1 | None \<Rightarrow> 0"
  have run: "script service username ui s w = next_concept service ?remaining t s w"
    using script_content_ready [OF assms(1,2) _ _ assms(4,5)] assms(3) by simp
  have successor:
    "selected_concept (session_after (next_concept service ?remaining t s w)) = Some nxt
     \<and> posted (next_concept service ?remaining t s w)
         = fst (get_explanation service nxt False False)"
    if "ROADMAP = pre @ t # mid @ nxt # post" "t \<notin> set pre" "?P t"
      "\<forall>c\<in>set mid. map_of progress c = Some True" "?P nxt"
    for pre mid nxt post
  proof -
    have "filter ?P mid = []"
      using that(4) by (auto simp: filter_empty_conv)
    then have rem: "?remaining = filter ?P pre @ t # nxt # filter ?P post"
      using that by simp
    have "t \<notin> set (filter ?P pre)" using that(2) by simp
    then have "list_index ?remaining t = Some (length (filter ?P pre))"
      unfolding rem by (rule list_index_first)
    then have idx: "?idx = length (filter ?P pre) + 1" by simp
    have "length (filter ?P pre) + 1 < length ?remaining"
      unfolding rem by simp
    moreover have "?remaining ! (length (filter ?P pre) + 1) = nxt"
      unfolding rem by (simp add: nth_append)
    ultimately show ?thesis
      using next_concept_moves [OF _ idx, of service s w] by simp
  qed
  have dead_end: "next_concept service ?remaining t s w = ends s w []"
    if "ROADMAP = pre @ t # post" "t \<notin> set pre" "?P t"
      "\<forall>c\<in>set post. map_of progress c = Some True"
    for pre post
  proof -
    have "filter ?P post = []"
      using that(4) by (auto simp: filter_empty_conv)
    then have rem: "?remaining = filter ?P pre @ [t]"
      using that by simp
    have "t \<notin> set (filter ?P pre)" using that(2) by simp
    then have "list_index ?remaining t = Some (length (filter ?P pre))"
      unfolding rem by (rule list_index_first)
    then have idx: "?idx = length (filter ?P pre) + 1" by simp
    have "\<not> length (filter ?P pre) + 1 < length ?remaining"
      unfolding rem by simp
    then show ?thesis
      using idx by (rule next_concept_stays)
  qed
  have restart:
    "selected_concept (session_after (next_concept service ?remaining t s w)) = Some first
     \<and> posted (next_concept service ?remaining t s w)
         = fst (get_explanation service first False False)"
    if "?remaining = first # rest" "t \<notin> set ?remaining" for first rest
  proof -
    have "list_index ?remaining t = None"
      using that(2) by (simp add: list_index_None)
    then have idx: "?idx = 0" by simp
    have "0 < length ?remaining" "?remaining ! 0 = first"
      using that(1) by simp_all
    then show ?thesis
      using next_concept_moves [OF _ idx, of service s w] by simp
  qed
  have exhausted: "next_concept service ?remaining t s w = ends s w []"
    if "?remaining = []"
  proof -
    have "list_index ?remaining t = None"
      unfolding that by simp
    then have idx: "?idx = 0" by simp
    have "\<not> 0 < length ?remaining" using that by simp
    then show ?thesis using idx by (rule next_concept_stays)
  qed
  show ?thesis
    unfolding run
  proof (intro conjI allI impI)
    fix pre mid nxt post
    assume "ROADMAP = pre @ t # mid @ nxt # post \<and> t \<notin> set pre
            \<and> map_of progress t = Some False
            \<and> (\<forall>c\<in>set mid. map_of progress c = Some True)
            \<and> map_of progress nxt = Some False"
    then have a: "ROADMAP = pre @ t # mid @ nxt # post" "t \<notin> set pre" "?P t"
      "\<forall>c\<in>set mid. map_of progress c = Some True" "?P nxt"
      by simp_all
    show "selected_concept (session_after (next_concept service ?remaining t s w)) = Some nxt"
      using successor [OF a] by simp
    show "posted (next_concept service ?remaining t s w)
            = fst (get_explanation service nxt False False)"
      using successor [OF a] by simp
  next
    fix pre post
    assume "ROADMAP = pre @ t # post \<and> t \<notin> set pre
            \<and> map_of progress t = Some False
            \<and> (\<forall>c\<in>set post. map_of progress c = Some True)"
    then have a: "ROADMAP = pre @ t # post" "t \<notin> set pre" "?P t"
      "\<forall>c\<in>set post. map_of progress c = Some True"
      by simp_all
    show "next_concept service ?remaining t s w = ends s w []"
      using dead_end [OF a] .
  next
    fix first rest
    assume "?remaining = first # rest \<and> t \<notin> set ?remaining"
    then have a: "?remaining = first # rest" "t \<notin> set ?remaining"
      by blast+
    show "selected_concept (session_after (next_concept service ?remaining t s w)) = Some first"
      using restart [OF a] by simp
    show "posted (next_concept service ?remaining t s w)
            = fst (get_explanation service first False False)"
      using restart [OF a] by simp
  next
    assume "?remaining = []"
    then show "next_concept service ?remaining t s w = ends s w []"
      by (rule exhausted)
  qed
qed

theorem next_follows_remaining_list_witness:
  "selected_concept (session_after (script (\<lambda>p. Response 200 [] (Some ''text'')) ''alice''
       \<lparr>domain_pick = ''Reverse Engineering'', concept_pick = [], clicked = Next\<rparr>
       \<lparr>selected_concept = Some ''Format String Vulnerabilities'', explanation = Some ''old'',
        quiz = None, example = None\<rparr>
       \<lparr>files = Map.empty, writable = (\<lambda>p. True), transcript = []\<rparr>))
     = Some ''Binary Exploitation with GDB''
   \<and> script (\<lambda>p. Response 200 [] (Some ''text'')) ''alice''
       \<lparr>domain_pick = ''Reverse Engineering'', concept_pick = [], clicked = Next\<rparr>
       \<lparr>selected_concept = Some ''Binary Exploitation with GDB'', explanation = Some ''old'',
        quiz = None, example = None\<rparr>
       \<lparr>files = [''user_data_c/alice_progress.json'' \<mapsto>
                   JsonObject [(''Shellcode Basics'', True)]],
        writable = (\<lambda>p. True), transcript = []\<rparr>
     = ends \<lparr>selected_concept = Some ''Binary Exploitation with GDB'', explanation = Some ''old'',
             quiz = None, example = None\<rparr>
         \<lparr>files = [''user_data_c/alice_progress.json'' \<mapsto>
                   JsonObject [(''Shellcode Basics'', True)]],
          writable = (\<lambda>p. True), transcript = []\<rparr> []
   \<and> selected_concept (session_after (script (\<lambda>p. Response 200 [] (Some ''text'')) ''alice''
       \<lparr>domain_pick = ''Reverse Engineering'', concept_pick = [], clicked = Next\<rparr>
       \<lparr>selected_concept = Some ''Shellcode Basics'', explanation = Some ''old'',
        quiz = None, example = None\<rparr>
       \<lparr>files = [''user_data_c/alice_progress.json'' \<mapsto>
                   JsonObject [(''Shellcode Basics'', True)]],
        writable = (\<lambda>p. True), transcript = []\<rparr>))
     = Some ''Buffer Overflow and Stack Smashing''"
proof -
  let ?svc = "\<lambda>p::payload. Response 200 [] (Some ''text'')"
  let ?ui = "\<lparr>domain_pick = ''Reverse Engineering'', concept_pick = [], clicked = Next\<rparr>"
  let ?stored = "\<lparr>files = [''user_data_c/alice_progress.json'' \<mapsto>
                   JsonObject [(''Shellcode Basics'', True)]],
        writable = (\<lambda>p. True), transcript = []\<rparr>"
  have r: "roadmap_of (selectbox (map fst C_DOMAINS) (domain_pick ?ui))
     = Inr [''Buffer Overflow and Stack Smashing'', ''Format String Vulnerabilities'',
            ''Binary Exploitation with GDB'', ''Shellcode Basics'']"
    by (simp add: roadmap_reverse_engineering)
  have c: "clicked ?ui = Next" by simp
  have "selected_concept (session_after (script ?svc ''alice'' ?ui
       \<lparr>selected_concept = Some ''Format String Vulnerabilities'', explanation = Some ''old'',
        quiz = None, example = None\<rparr>
       \<lparr>files = Map.empty, writable = (\<lambda>p. True), transcript = []\<rparr>))
     = Some ''Binary Exploitation with GDB''"
    using next_follows_remaining_list [OF r load_fresh_reverse_engineering c,
        where t = "''Format String Vulnerabilities''" and ex = "''old''" and service = ?svc,
        THEN conjunct1, rule_format,
        of _ "[''Buffer Overflow and Stack Smashing'']" "[]" "''Binary Exploitation with GDB''"
           "[''Shellcode Basics'']"]
    by simp
  moreover have "script ?svc ''alice'' ?ui
       \<lparr>selected_concept = Some ''Binary Exploitation with GDB'', explanation = Some ''old'',
        quiz = None, example = None\<rparr> ?stored
     = ends \<lparr>selected_concept = Some ''Binary Exploitation with GDB'', explanation = Some ''old'',
             quiz = None, example = None\<rparr> ?stored []"
    using next_follows_remaining_list [OF r load_stored_reverse_engineering c,
        where t = "''Binary Exploitation with GDB''" and ex = "''old''" and service = ?svc,
        THEN conjunct2, THEN conjunct1, rule_format,
        of _ "[''Buffer Overflow and Stack Smashing'', ''Format String Vulnerabilities'']"
           "[''Shellcode Basics'']"]
    by simp
  moreover have "selected_concept (session_after (script ?svc ''alice'' ?ui
       \<lparr>selected_concept = Some ''Shellcode Basics'', explanation = Some ''old'',
        quiz = None, example = None\<rparr> ?stored))
     = Some ''Buffer Overflow and Stack Smashing''"
    using next_follows_remaining_list [OF r load_stored_reverse_engineering c,
        where t = "''Shellcode Basics''" and ex = "''old''" and service = ?svc,
        THEN conjunct2, THEN conjunct2, THEN conjunct1, rule_format,
        of _ "''Buffer Overflow and Stack Smashing''"
           "[''Format String Vulnerabilities'', ''Binary Exploitation with GDB'']"]
    by simp
  ultimately show ?thesis by blast
qed

theorem next_dead_end_counterexample:
  "selected_concept (session_after (script (\<lambda>p. Response 200 [] (Some ''text'')) ''alice''
       \<lparr>domain_pick = ''Reverse Engineering'', concept_pick = [], clicked = Next\<rparr>
       \<lparr>selected_concept = Some ''Shellcode Basics'', explanation = Some ''old'',
        quiz = None, example = None\<rparr>
       \<lparr>files = Map.empty, writable = (\<lambda>p. True), transcript = []\<rparr>))
     = Some ''Shellcode Basics''
   \<and> selected_concept (session_after (script (\<lambda>p. Response 200 [] (Some ''text'')) ''alice''
       \<lparr>domain_pick = ''Reverse Engineering'', concept_pick = [], clicked = Next\<rparr>
       \<lparr>selected_concept = Some ''Data Types and Variables'', explanation = Some ''old'',
        quiz = None, example = None\<rparr>
       \<lparr>files = Map.empty, writable = (\<lambda>p. True), transcript = []\<rparr>))
     = Some ''Buffer Overflow and Stack Smashing''
   \<and> posted (script (\<lambda>p. Response 200 [] (Some ''text'')) ''alice''
       \<lparr>domain_pick = ''Reverse Engineering'', concept_pick = [], clicked = Next\<rparr>
       \<lparr>selected_concept = Some ''Data Types and Variables'', explanation = Some ''old'',
        quiz = None, example = None\<rparr>
       \<lparr>files = Map.empty, writable = (\<lambda>p. True), transcript = []\<rparr>)
     = [\<lparr>model = ''deepseek/deepseek-chat-v3-0324:free'',
         messages = [(''system'', ''You are a helpful C programming tutor.''),
                     (''user'', ''Explain the C programming concept clearly with code examples. Buffer Overflow and Stack Smashing'')]\<rparr>]"
proof -
  let ?svc = "\<lambda>p::payload. Response 200 [] (Some ''text'')"
  let ?ui = "\<lparr>domain_pick = ''Reverse Engineering'', concept_pick = [], clicked = Next\<rparr>"
  have r: "roadmap_of (selectbox (map fst C_DOMAINS) (domain_pick ?ui))
     = Inr [''Buffer Overflow and Stack Smashing'', ''Format String Vulnerabilities'',
            ''Binary Exploitation with GDB'', ''Shellcode Basics'']"
    by (simp add: roadmap_reverse_engineering)
  have "script ?svc ''alice'' ?ui
       \<lparr>selected_concept = Some ''Shellcode Basics'', explanation = Some ''old'',
        quiz = None, example = None\<rparr>
       \<lparr>files = Map.empty, writable = (\<lambda>p. True), transcript = []\<rparr>
     = ends \<lparr>selected_concept = Some ''Shellcode Basics'', explanation = Some ''old'',
        quiz = None, example = None\<rparr>
       \<lparr>files = Map.empty, writable = (\<lambda>p. True), transcript = []\<rparr> []"
    using script_content_ready [OF r load_fresh_reverse_engineering,
        where t = "''Shellcode Basics''" and ex = "''old''" and service = ?svc]
    by (simp add: next_concept_def)
  moreover have "script ?svc ''alice'' ?ui
       \<lparr>selected_concept = Some ''Data Types and Variables'', explanation = Some ''old'',
        quiz = None, example = None\<rparr>
       \<lparr>files = Map.empty, writable = (\<lambda>p. True), transcript = []\<rparr>
     = reruns \<lparr>selected_concept = Some ''Buffer Overflow and Stack Smashing'',
               explanation = Some ''text'', quiz = None, example = None\<rparr>
       \<lparr>files = Map.empty, writable = (\<lambda>p. True), transcript = []\<rparr>
       [\<lparr>model = ''deepseek/deepseek-chat-v3-0324:free'',
         messages = [(''system'', ''You are a helpful C programming tutor.''),
                     (''user'', ''Explain the C programming concept clearly with code examples. Buffer Overflow and Stack Smashing'')]\<rparr>]"
    using script_content_ready [OF r load_fresh_reverse_engineering,
        where t = "''Data Types and Variables''" and ex = "''old''" and service = ?svc]
    by (simp add: next_concept_def get_explanation_def MODEL_def)
  ultimately show ?thesis
    by (simp add: ends_def reruns_def)
qed

text \<open>
  C7, as the code has it. The list offered for selection holds exactly the topics of the
  road map that are not marked true, so a run with the Teach Me or the Next button posts
  a request only for a topic that is not marked true, and selects that topic. Regenerate,
  Show Example and Give Me a Quiz post their request for the selected topic whatever its
  flag is.
\<close>

theorem requests_follow_selection_list:
  assumes "roadmap_of (selectbox (map fst C_DOMAINS) (domain_pick ui)) = Inr ROADMAP"
    and "load_progress ROADMAP username w = Inr progress"
  shows "available_concepts ROADMAP progress
           = Inr (filter (\<lambda>c. map_of progress c = Some False) ROADMAP)
       \<and> (clicked ui = TeachMe \<or> clicked ui = Next \<longrightarrow>
            posted (script service username ui s w) = []
            \<or> (\<exists>c\<in>set ROADMAP. map_of progress c = Some False
                 \<and> selected_concept (session_after (script service username ui s w)) = Some c
                 \<and> posted (script service username ui s w)
                     = fst (get_explanation service c False False)))
       \<and> (\<forall>t ex. selected_concept s = Some t \<and> explanation s = Some ex \<longrightarrow>
            (clicked ui = Regenerate \<longrightarrow>
               posted (script service username ui s w)
                 = fst (get_explanation service t False False))
            \<and> (clicked ui = ShowExample \<longrightarrow>
               posted (script service username ui s w)
                 = fst (get_explanation service t False True))
            \<and> (clicked ui = GiveQuiz \<longrightarrow>
               posted (script service username ui s w)
                 = fst (get_explanation service t True False)))"
proof (intro conjI allI impI)
  have "set ROADMAP \<subseteq> fst ` set progress"
    using load_progress_keys [OF assms(2)] by simp
  then show "available_concepts ROADMAP progress
           = Inr (filter (\<lambda>c. map_of progress c = Some False) ROADMAP)"
    by (rule available_concepts_filter)
next
  assume "clicked ui = TeachMe \<or> clicked ui = Next"
  then show "posted (script service username ui s w) = []
            \<or> (\<exists>c\<in>set ROADMAP. map_of progress c = Some False
                 \<and> selected_concept (session_after (script service username ui s w)) = Some c
                 \<and> posted (script service username ui s w)
                     = fst (get_explanation service c False False))"
    using script_teach_me [OF assms] script_next [OF assms] by blast
next
  fix t ex
  assume ready: "selected_concept s = Some t \<and> explanation s = Some ex"
  then have sel: "selected_concept s = Some t" and ex: "explanation s = Some ex"
    by simp_all
  {
    assume "clicked ui = Regenerate"
    then have "script service username ui s w = regenerate service t s w"
      using script_content_ready [OF assms _ _ sel ex] by simp
    then show "posted (script service username ui s w)
                 = fst (get_explanation service t False False)"
      using regenerate_run [of service t s w] by simp
  next
    assume "clicked ui = ShowExample"
    then have "script service username ui s w = show_example service t s w"
      using script_content_ready [OF assms _ _ sel ex] by simp
    then show "posted (script service username ui s w)
                 = fst (get_explanation service t False True)"
      by (simp add: show_example_posted)
  next
    assume "clicked ui = GiveQuiz"
    then have "script service username ui s w = give_quiz service t s w"
      using script_content_ready [OF assms _ _ sel ex] by simp
    then show "posted (script service username ui s w)
                 = fst (get_explanation service t True False)"
      by (simp add: give_quiz_posted)
  }
qed

theorem requests_follow_selection_list_witness:
  "available_concepts
       [''Buffer Overflow and Stack Smashing'', ''Format String Vulnerabilities'',
        ''Binary Exploitation with GDB'', ''Shellcode Basics'']
       [(''Buffer Overflow and Stack Smashing'', False),
        (''Format String Vulnerabilities'', False),
        (''Binary Exploitation with GDB'', False),
        (''Shellcode Basics'', True)]
     = Inr [''Buffer Overflow and Stack Smashing'', ''Format String Vulnerabilities'',
            ''Binary Exploitation with GDB'']
   \<and> posted (script (\<lambda>p. Response 200 [] (Some ''text'')) ''alice''
       \<lparr>domain_pick = ''Reverse Engineering'', concept_pick = ''Shellcode Basics'',
        clicked = TeachMe\<rparr>
       \<lparr>selected_concept = None, explanation = None, quiz = None, example = None\<rparr>
       \<lparr>files = [''user_data_c/alice_progress.json'' \<mapsto>
                   JsonObject [(''Shellcode Basics'', True)]],
        writable = (\<lambda>p. True), transcript = []\<rparr>)
     \<noteq> [\<lparr>model = ''deepseek/deepseek-chat-v3-0324:free'',
         messages = [(''system'', ''You are a helpful C programming tutor.''),
                     (''user'', ''Explain the C programming concept clearly with code examples. Shellcode Basics'')]\<rparr>]"
proof -
  let ?svc = "\<lambda>p::payload. Response 200 [] (Some ''text'')"
  let ?ui = "\<lparr>domain_pick = ''Reverse Engineering'', concept_pick = ''Shellcode Basics'',
        clicked = TeachMe\<rparr>"
  have r: "roadmap_of (selectbox (map fst C_DOMAINS) (domain_pick ?ui))
     = Inr [''Buffer Overflow and Stack Smashing'', ''Format String Vulnerabilities'',
            ''Binary Exploitation with GDB'', ''Shellcode Basics'']"
    by (simp add: roadmap_reverse_engineering)
  show ?thesis
    using requests_follow_selection_list [OF r load_stored_reverse_engineering,
        where service = ?svc
          and s = "\<lparr>selected_concept = None, explanation = None, quiz = None, example = None\<rparr>"]
    by (auto simp: get_explanation_def MODEL_def)
qed

theorem completed_topic_request_counterexample:
  "load_progress [''Buffer Overflow and Stack Smashing'', ''Format String Vulnerabilities'',
                  ''Binary Exploitation with GDB'', ''Shellcode Basics''] ''alice''
       \<lparr>files = [''user_data_c/alice_progress.json'' \<mapsto>
                   JsonObject [(''Shellcode Basics'', True)]],
        writable = (\<lambda>p. True), transcript = []\<rparr>
     = Inr [(''Buffer Overflow and Stack Smashing'', False),
            (''Format String Vulnerabilities'', False),
            (''Binary Exploitation with GDB'', False),
            (''Shellcode Basics'', True)]
   \<and> script (\<lambda>p. Response 200 [] (Some ''text'')) ''alice''
       \<lparr>domain_pick = ''Reverse Engineering'', concept_pick = [], clicked = Regenerate\<rparr>
       \<lparr>selected_concept = Some ''Shellcode Basics'', explanation = Some ''old'',
        quiz = None, example = None\<rparr>
       \<lparr>files = [''user_data_c/alice_progress.json'' \<mapsto>
                   JsonObject [(''Shellcode Basics'', True)]],
        writable = (\<lambda>p. True), transcript = []\<rparr>
     = reruns \<lparr>selected_concept = Some ''Shellcode Basics'', explanation = Some ''text'',
               quiz = None, example = None\<rparr>
         \<lparr>files = [''user_data_c/alice_progress.json'' \<mapsto>
                   JsonObject [(''Shellcode Basics'', True)]],
          writable = (\<lambda>p. True), transcript = []\<rparr>
         [\<lparr>model = ''deepseek/deepseek-chat-v3-0324:free'',
           messages = [(''system'', ''You are a helpful C programming tutor.''),
                       (''user'', ''Explain the C programming concept clearly with code examples. Shellcode Basics'')]\<rparr>]"
proof -
  let ?ui = "\<lparr>domain_pick = ''Reverse Engineering'', concept_pick = [], clicked = Regenerate\<rparr>"
  have r: "roadmap_of (selectbox (map fst C_DOMAINS) (domain_pick ?ui))
     = Inr [''Buffer Overflow and Stack Smashing'', ''Format String Vulnerabilities'',
            ''Binary Exploitation with GDB'', ''Shellcode Basics'']"
    by (simp add: roadmap_reverse_engineering)
  show ?thesis
    using script_content_ready [OF r load_stored_reverse_engineering,
        where t = "''Shellcode Basics''" and ex = "''old''"
          and service = "\<lambda>p. Response 200 [] (Some ''text'')"]
    by (simp add: load_stored_reverse_engineering regenerate_def get_explanation_def MODEL_def)
qed

text \<open>
  C8, as the code has it. In a run with the Mark Done button, a selected topic \<open>t\<close>, an
  explanation in the session and a user file that can be written: the record with
  \<open>t\<close> set to true is written to the user file, the selected topic is removed from the
  session, the explanation, example and quiz texts stay in the session, nothing is
  posted and the run ends in a rerun. A load for the same road map then gives the record
  with \<open>t\<close> true when \<open>t\<close> is a topic of the road map.
\<close>

theorem mark_done_keeps_cached_text:
  assumes "roadmap_of (selectbox (map fst C_DOMAINS) (domain_pick ui)) = Inr ROADMAP"
    and "load_progress ROADMAP username w = Inr progress"
    and "clicked ui = MarkDone"
    and "selected_concept s = Some t" and "explanation s = Some ex"
    and "writable w (get_user_file username)"
  shows "script service username ui s w
           = reruns (s\<lparr>selected_concept := None\<rparr>)
               (w\<lparr>files := (files w)(get_user_file username \<mapsto>
                     JsonObject (AList.update t True progress))\<rparr>) []
       \<and> map_of (AList.update t True progress) = (map_of progress)(t \<mapsto> True)
       \<and> (t \<in> set ROADMAP \<longrightarrow>
            (\<exists>d. load_progress ROADMAP username
                    (world_after (script service username ui s w)) = Inr d
                \<and> map_of d = (map_of progress)(t \<mapsto> True)))"
proof -
  let ?w' = "w\<lparr>files := (files w)(get_user_file username \<mapsto>
                     JsonObject (AList.update t True progress))\<rparr>"
  have run: "script service username ui s w = reruns (s\<lparr>selected_concept := None\<rparr>) ?w' []"
    using script_content_ready [OF assms(1,2) _ _ assms(4,5)] assms(3)
    by (simp add: mark_done_run [OF assms(6)])
  have upd: "map_of (AList.update t True progress) = (map_of progress)(t \<mapsto> True)"
    by (rule update_conv')
  have keys: "fst ` set progress = set ROADMAP"
    using assms(2) by (rule load_progress_keys)
  have again: "\<exists>d. load_progress ROADMAP username ?w' = Inr d
                \<and> map_of d = (map_of progress)(t \<mapsto> True)" if "t \<in> set ROADMAP"
  proof -
    let ?d = "dict_comprehension
                (\<lambda>topic. dict_get (AList.update t True progress) topic False) ROADMAP []"
    have "load_progress ROADMAP username ?w' = Inr ?d"
      by (rule load_progress_object) simp
    moreover have "map_of ?d c = ((map_of progress)(t \<mapsto> True)) c" for c
    proof (cases "c \<in> set ROADMAP")
      case True
      then obtain v where "map_of progress c = Some v"
        using keys by (metis map_of_eq_None_iff not_Some_eq)
      then show ?thesis
        using True by (simp add: map_of_dict_comprehension dict_get_def upd)
    next
      case False
      then have "map_of progress c = None" "c \<noteq> t"
        using keys that by (auto simp: map_of_eq_None_iff)
      then show ?thesis
        using False by (simp add: map_of_dict_comprehension)
    qed
    ultimately show ?thesis by blast
  qed
  show ?thesis
    using run upd again by (simp add: reruns_def)
qed

theorem mark_done_keeps_cached_text_witness:
  "script (\<lambda>p. NoResponse) ''alice''
       \<lparr>domain_pick = ''Reverse Engineering'', concept_pick = [], clicked = MarkDone\<rparr>
       \<lparr>selected_concept = Some ''Shellcode Basics'', explanation = Some ''old'',
        quiz = None, example = Some ''old example''\<rparr>
       \<lparr>files = Map.empty, writable = (\<lambda>p. True), transcript = []\<rparr>
     = reruns \<lparr>selected_concept = None, explanation = Some ''old'',
               quiz = None, example = Some ''old example''\<rparr>
         \<lparr>files = [''user_data_c/alice_progress.json'' \<mapsto>
                     JsonObject [(''Buffer Overflow and Stack Smashing'', False),
                                 (''Format String Vulnerabilities'', False),
                                 (''Binary Exploitation with GDB'', False),
                                 (''Shellcode Basics'', True)]],
          writable = (\<lambda>p. True), transcript = []\<rparr> []"
  using mark_done_keeps_cached_text
    [where ui = "\<lparr>domain_pick = ''Reverse Engineering'', concept_pick = [], clicked = MarkDone\<rparr>"
       and s = "\<lparr>selected_concept = Some ''Shellcode Basics'', explanation = Some ''old'',
                 quiz = None, example = Some ''old example''\<rparr>"
       and service = "\<lambda>p. NoResponse"
       and t = "''Shellcode Basics''" and ex = "''old''",
     OF _ load_fresh_reverse_engineering]
  by (simp add: roadmap_reverse_engineering get_user_file_def os_path_join_def USER_DIR_def)

theorem mark_done_clears_counterexample:
  "explanation (session_after (script (\<lambda>p. NoResponse) ''alice''
       \<lparr>domain_pick = ''Reverse Engineering'', concept_pick = [], clicked = MarkDone\<rparr>
       \<lparr>selected_concept = Some ''Binary Exploitation with GDB'', explanation = Some ''text'',
        quiz = Some ''a quiz'', example = Some ''an example''\<rparr>
       \<lparr>files = Map.empty, writable = (\<lambda>p. True), transcript = []\<rparr>)) = Some ''text''
   \<and> quiz (session_after (script (\<lambda>p. NoResponse) ''alice''
       \<lparr>domain_pick = ''Reverse Engineering'', concept_pick = [], clicked = MarkDone\<rparr>
       \<lparr>selected_concept = Some ''Binary Exploitation with GDB'', explanation = Some ''text'',
        quiz = Some ''a quiz'', example = Some ''an example''\<rparr>
       \<lparr>files = Map.empty, writable = (\<lambda>p. True), transcript = []\<rparr>)) = Some ''a quiz''
   \<and> example (session_after (script (\<lambda>p. NoResponse) ''alice''
       \<lparr>domain_pick = ''Reverse Engineering'', concept_pick = [], clicked = MarkDone\<rparr>
       \<lparr>selected_concept = Some ''Binary Exploitation with GDB'', explanation = Some ''text'',
        quiz = Some ''a quiz'', example = Some ''an example''\<rparr>
       \<lparr>files = Map.empty, writable = (\<lambda>p. True), transcript = []\<rparr>)) = Some ''an example''"
  using script_content_ready
    [where ui = "\<lparr>domain_pick = ''Reverse Engineering'', concept_pick = [], clicked = MarkDone\<rparr>"
       and s = "\<lparr>selected_concept = Some ''Binary Exploitation with GDB'', explanation = Some ''text'',
        quiz = Some ''a quiz'', example = Some ''an example''\<rparr>"
       and service = "\<lambda>p. NoResponse"
       and t = "''Binary Exploitation with GDB''" and ex = "''text''",
     OF _ load_fresh_reverse_engineering]
  by (simp add: roadmap_reverse_engineering mark_done_run reruns_def)

text \<open>
  C9, as the code has it. In a run with the Regenerate button, a selected topic \<open>t\<close> and
  an explanation in the session: the explanation of \<open>t\<close> is requested again, \<open>t\<close>
  stays selected, the example and quiz texts of the session are kept, and the world is
  unchanged; when the request returns a text, that text replaces the explanation and the
  run ends in a rerun.
\<close>

theorem regenerate_keeps_example_and_quiz:
  assumes "roadmap_of (selectbox (map fst C_DOMAINS) (domain_pick ui)) = Inr ROADMAP"
    and "load_progress ROADMAP username w = Inr progress"
    and "clicked ui = Regenerate"
    and "selected_concept s = Some t" and "explanation s = Some ex"
  shows "posted (script service username ui s w) = fst (get_explanation service t False False)
       \<and> selected_concept (session_after (script service username ui s w)) = Some t
       \<and> quiz (session_after (script service username ui s w)) = quiz s
       \<and> example (session_after (script service username ui s w)) = example s
       \<and> world_after (script service username ui s w) = w
       \<and> (\<forall>text. snd (get_explanation service t False False) = Inr text \<longrightarrow>
            script service username ui s w
              = reruns (s\<lparr>explanation := Some text\<rparr>) w
                  (fst (get_explanation service t False False)))"
proof -
  have run: "script service username ui s w = regenerate service t s w"
    using script_content_ready [OF assms(1,2) _ _ assms(4,5)] assms(3) by simp
  show ?thesis
    unfolding run using regenerate_run [of service t s w] assms(4)
    by (auto simp: regenerate_text)
qed

theorem regenerate_keeps_example_and_quiz_witness:
  "quiz (session_after (script (\<lambda>p. Response 200 [] (Some ''new'')) ''alice''
       \<lparr>domain_pick = ''Reverse Engineering'', concept_pick = [], clicked = Regenerate\<rparr>
       \<lparr>selected_concept = Some ''Shellcode Basics'', explanation = Some ''old'',
        quiz = Some ''old quiz'', example = None\<rparr>
       \<lparr>files = Map.empty, writable = (\<lambda>p. True), transcript = []\<rparr>)) = Some ''old quiz''
   \<and> explanation (session_after (script (\<lambda>p. Response 200 [] (Some ''new'')) ''alice''
       \<lparr>domain_pick = ''Reverse Engineering'', concept_pick = [], clicked = Regenerate\<rparr>
       \<lparr>selected_concept = Some ''Shellcode Basics'', explanation = Some ''old'',
        quiz = Some ''old quiz'', example = None\<rparr>
       \<lparr>files = Map.empty, writable = (\<lambda>p. True), transcript = []\<rparr>)) = Some ''new''"
  using regenerate_keeps_example_and_quiz
    [where ui = "\<lparr>domain_pick = ''Reverse Engineering'', concept_pick = [], clicked = Regenerate\<rparr>"
       and s = "\<lparr>selected_concept = Some ''Shellcode Basics'', explanation = Some ''old'',
                 quiz = Some ''old quiz'', example = None\<rparr>"
       and service = "\<lambda>p. Response 200 [] (Some ''new'')"
       and t = "''Shellcode Basics''" and ex = "''old''",
     OF _ load_fresh_reverse_engineering]
  by (simp add: roadmap_reverse_engineering get_explanation_def reruns_def)

theorem regenerate_discards_counterexample:
  "example (session_after (script (\<lambda>p. Response 200 [] (Some ''again'')) ''alice''
       \<lparr>domain_pick = ''Reverse Engineering'', concept_pick = [], clicked = Regenerate\<rparr>
       \<lparr>selected_concept = Some ''Format String Vulnerabilities'', explanation = Some ''first'',
        quiz = Some ''a quiz'', example = Some ''an example''\<rparr>
       \<lparr>files = Map.empty, writable = (\<lambda>p. True), transcript = []\<rparr>)) = Some ''an example''
   \<and> quiz (session_after (script (\<lambda>p. Response 200 [] (Some ''again'')) ''alice''
       \<lparr>domain_pick = ''Reverse Engineering'', concept_pick = [], clicked = Regenerate\<rparr>
       \<lparr>selected_concept = Some ''Format String Vulnerabilities'', explanation = Some ''first'',
        quiz = Some ''a quiz'', example = Some ''an example''\<rparr>
       \<lparr>files = Map.empty, writable = (\<lambda>p. True), transcript = []\<rparr>)) = Some ''a quiz''"
  using script_content_ready
    [where ui = "\<lparr>domain_pick = ''Reverse Engineering'', concept_pick = [], clicked = Regenerate\<rparr>"
       and s = "\<lparr>selected_concept = Some ''Format String Vulnerabilities'', explanation = Some ''first'',
        quiz = Some ''a quiz'', example = Some ''an example''\<rparr>"
       and service = "\<lambda>p. Response 200 [] (Some ''again'')"
       and t = "''Format String Vulnerabilities''" and ex = "''first''",
     OF _ load_fresh_reverse_engineering]
  by (simp add: roadmap_reverse_engineering regenerate_def get_explanation_def reruns_def)

end
